theory Spec2Isabelle
  imports Main "HOL-Library.Multiset"
begin

section \<open>Text: the two string methods the comparison uses\<close>

text \<open>
  The carrier file is decoded as Latin-1, one byte per character, so the text of a cell
  is a list of Latin-1 characters. \<^verbatim>\<open>str.upper()\<close> leaves this range at two
  characters: the capital of the micro sign (code point 181) is the Greek capital mu,
  U+039C, and the capital of y with diaeresis (255) is U+0178. A character of the model
  is therefore a Latin-1 character or one of these two capitals; this set is closed
  under the two string methods that the comparison applies.
\<close>

datatype pychar = Latin1 char | U039C | U0178

type_synonym pystr = "pychar list"

text \<open>The text that decoding the bytes of a string as Latin-1 gives.\<close>

definition latin1 :: "string \<Rightarrow> pystr" where
  "latin1 s = map Latin1 s"

text \<open>
  \<^verbatim>\<open>str.strip()\<close> removes the characters for which \<^verbatim>\<open>str.isspace\<close> holds from
  both ends; in the Latin-1 range these are the code points 9 to 13, 28 to 32, 133 and
  160. The two capitals outside Latin-1 are letters.
\<close>

fun isspace :: "pychar \<Rightarrow> bool" where
  "isspace (Latin1 c) =
     (let n = (of_char c :: nat)
      in (9 \<le> n \<and> n \<le> 13) \<or> (28 \<le> n \<and> n \<le> 32) \<or> n = 133 \<or> n = 160)"
| "isspace U039C = False"
| "isspace U0178 = False"

definition lstrip :: "pystr \<Rightarrow> pystr" where
  "lstrip s = dropWhile isspace s"

definition rstrip :: "pystr \<Rightarrow> pystr" where
  "rstrip s = rev (dropWhile isspace (rev s))"

definition strip :: "pystr \<Rightarrow> pystr" where
  "strip s = rstrip (lstrip s)"

text \<open>
  \<^verbatim>\<open>str.upper()\<close>: the letters a to z and the accented letters 224 to 254 (without
  the division sign 247) move down by 32, the sharp s (223) becomes the two letters SS,
  the micro sign (181) becomes U+039C and y with diaeresis (255) becomes U+0178. Every
  other Latin-1 character, and each of the two capitals, is its own upper case.
\<close>

fun upper_char :: "pychar \<Rightarrow> pystr" where
  "upper_char (Latin1 c) =
     (let n = (of_char c :: nat)
      in if 97 \<le> n \<and> n \<le> 122 then [Latin1 (char_of (n - 32))]
         else if 224 \<le> n \<and> n \<le> 254 \<and> n \<noteq> 247 then [Latin1 (char_of (n - 32))]
         else if n = 223 then [Latin1 CHR ''S'', Latin1 CHR ''S'']
         else if n = 181 then [U039C]
         else if n = 255 then [U0178]
         else [Latin1 c])"
| "upper_char U039C = [U039C]"
| "upper_char U0178 = [U0178]"

definition upper :: "pystr \<Rightarrow> pystr" where
  "upper s = concat (map upper_char s)"

section \<open>Data frames\<close>

text \<open>
  A cell of a column holds text or is missing (pandas' NaN). The loader forces the
  identifier column to text, and the record sets of the specification have the two
  textual fields identifier and status, so numeric cells are not modelled. A frame is
  the list of its rows in index order.
\<close>

type_synonym cell = "pystr option"

record row =
  protocolo :: cell
  status :: cell

type_synonym frame = "row list"

text \<open>The merged frame has the key and one status column from each side.\<close>

record joined =
  PROTOCOLO :: cell
  STATUS_ALGAR :: cell
  STATUS_AG :: cell

text \<open>The two helper columns that the comparison adds to the merged frame.\<close>

record merged = joined +
  STATUS_ALGAR_NORM :: cell
  STATUS_AG_NORM :: cell

text \<open>The two frames that the caller passes in and that the comparison updates in place.\<close>

record frames =
  df_algar :: frame
  df_data :: frame

subsection \<open>Column operations\<close>

text \<open>\<^verbatim>\<open>df.dropna(subset=['PROTOCOLO'], inplace=True)\<close>: rows with a missing key go.\<close>

definition dropna_protocolo :: "frame \<Rightarrow> frame" where
  "dropna_protocolo df = filter (\<lambda>r. protocolo r \<noteq> None) df"

text \<open>\<^verbatim>\<open>astype(str)\<close>: text stays, a missing value would become the text nan.\<close>

definition astype_str :: "cell \<Rightarrow> cell" where
  "astype_str c = (case c of None \<Rightarrow> Some (latin1 ''nan'') | Some s \<Rightarrow> Some s)"

text \<open>The \<^verbatim>\<open>.str\<close> methods work on the text cells and keep a missing cell missing.\<close>

definition str_strip :: "cell \<Rightarrow> cell" where
  "str_strip c = map_option strip c"

definition str_upper :: "cell \<Rightarrow> cell" where
  "str_upper c = map_option upper c"

text \<open>
  \<^verbatim>\<open>df[col].dtype == 'object'\<close>: a column that holds text has dtype object, as
  it has in pandas up to version 2, for which the test is written. A column with
  nothing but missing values may be a float column; for it both branches of the test
  leave the column as it is.
\<close>

definition dtype_object :: "cell list \<Rightarrow> bool" where
  "dtype_object col = list_ex (\<lambda>c. c \<noteq> None) col"

definition assign_protocolo :: "(cell \<Rightarrow> cell) \<Rightarrow> frame \<Rightarrow> frame" where
  "assign_protocolo f df = map (\<lambda>r. r\<lparr>protocolo := f (protocolo r)\<rparr>) df"

definition assign_status :: "(cell \<Rightarrow> cell) \<Rightarrow> frame \<Rightarrow> frame" where
  "assign_status f df = map (\<lambda>r. r\<lparr>status := f (status r)\<rparr>) df"

text \<open>
  The body of the loop \<^verbatim>\<open>for df in [df_algar, df_data]\<close>: the key is converted to
  text and stripped; then every column of dtype object is stripped and uppercased. The
  key column is of dtype object after \<^verbatim>\<open>astype(str)\<close>.
\<close>

definition padronizar :: "frame \<Rightarrow> frame" where
  "padronizar df =
     (let df1 = assign_protocolo (str_strip \<circ> astype_str) df;
          df2 = assign_protocolo (str_upper \<circ> str_strip) df1;
          df3 = (if dtype_object (map status df2)
                 then assign_status (str_upper \<circ> str_strip) df2 else df2)
      in df3)"

subsection \<open>Merge and comparison\<close>

text \<open>
  \<^verbatim>\<open>pd.merge(df_algar, df_data, on='PROTOCOLO', how='inner')\<close>: every pair of a left
  row and a right row with equal keys gives one row, in the order of the left rows.
\<close>

definition merge_inner :: "frame \<Rightarrow> frame \<Rightarrow> joined list" where
  "merge_inner l r =
     concat (map (\<lambda>a. map (\<lambda>b. \<lparr>PROTOCOLO = protocolo a, STATUS_ALGAR = status a,
                                  STATUS_AG = status b\<rparr>)
                           (filter (\<lambda>b. protocolo b = protocolo a) r)) l)"

text \<open>\<^verbatim>\<open>df_merged.dropna(subset=['STATUS_ALGAR', 'STATUS_AG'], inplace=True)\<close>\<close>

definition dropna_status :: "joined list \<Rightarrow> joined list" where
  "dropna_status m = filter (\<lambda>j. STATUS_ALGAR j \<noteq> None \<and> STATUS_AG j \<noteq> None) m"

text \<open>\<^verbatim>\<open>Series.replace('FECHADO', 'INSTALADO')\<close> replaces cells equal to the first text.\<close>

definition replace_fechado :: "cell \<Rightarrow> cell" where
  "replace_fechado c = (if c = Some (latin1 ''FECHADO'') then Some (latin1 ''INSTALADO'') else c)"

definition add_norm :: "joined \<Rightarrow> merged" where
  "add_norm j = joined.extend j
     \<lparr>STATUS_ALGAR_NORM = replace_fechado (STATUS_ALGAR j),
      STATUS_AG_NORM = replace_fechado (STATUS_AG j)\<rparr>"

text \<open>The element-wise \<^verbatim>\<open>!=\<close> of two columns; a missing value differs from everything.\<close>

definition cell_ne :: "cell \<Rightarrow> cell \<Rightarrow> bool" where
  "cell_ne a b = (case (a, b) of (Some x, Some y) \<Rightarrow> x \<noteq> y | _ \<Rightarrow> True)"

definition divergencias_mask :: "merged \<Rightarrow> bool" where
  "divergencias_mask m = cell_ne (STATUS_ALGAR_NORM m) (STATUS_AG_NORM m)"

text \<open>The selection \<^verbatim>\<open>[['PROTOCOLO', 'STATUS_ALGAR', 'STATUS_AG']]\<close> of a merged row.\<close>

definition select3 :: "merged \<Rightarrow> joined" where
  "select3 m = joined.truncate m"

text \<open>
  \<^verbatim>\<open>processar_e_comparar\<close>: the frames of the caller are changed in place, so the
  function returns them next to its result, the pair of the divergent and the equal
  rows.
\<close>

definition processar_e_comparar :: "frames \<Rightarrow> frames \<times> joined list \<times> joined list" where
  "processar_e_comparar s =
     (let algar = padronizar (dropna_protocolo (df_algar s));
          data = padronizar (dropna_protocolo (df_data s));
          df_merged = map add_norm (dropna_status (merge_inner algar data));
          df_divergente = map select3 (filter divergencias_mask df_merged);
          df_igual = map select3 (filter (\<lambda>m. \<not> divergencias_mask m) df_merged)
      in (\<lparr>df_algar = algar, df_data = data\<rparr>, df_divergente, df_igual))"

text \<open>The parts of the result, and the merged frame that the cleaned frames give.\<close>

abbreviation frames_after :: "frames \<Rightarrow> frames" where
  "frames_after s \<equiv> fst (processar_e_comparar s)"

abbreviation df_divergente :: "frames \<Rightarrow> joined list" where
  "df_divergente s \<equiv> fst (snd (processar_e_comparar s))"

abbreviation df_igual :: "frames \<Rightarrow> joined list" where
  "df_igual s \<equiv> snd (snd (processar_e_comparar s))"

abbreviation df_merged :: "frames \<Rightarrow> joined list" where
  "df_merged s \<equiv> merge_inner (df_algar (frames_after s)) (df_data (frames_after s))"

section \<open>Loading\<close>

text \<open>
  \<^verbatim>\<open>pd.read_csv\<close> and \<^verbatim>\<open>pd.read_excel\<close> belong to pandas, so they are parameters
  of the model: a reader either raises, which is \<open>Inl\<close> of the text of the exception, or
  returns the rows of the two columns it was asked for, in the order of their positions
  in the file (columns 2 and 19 of the CSV file, columns 0 and 3 of the Excel file).
  The calls of \<^verbatim>\<open>st.error\<close> are the list of messages in the first component of the
  result; the two frames are \<open>None\<close> where the source returns \<^verbatim>\<open>None\<close>.
\<close>

type_synonym 'f reader = "'f \<Rightarrow> string + (cell \<times> cell) list"

definition mensagem_erro :: string where
  "mensagem_erro =
     ''Ocorreu um erro ao ler os arquivos. Verifique se as planilhas cont'' @ [CHR 0xEA] @
     ''m dados nas colunas esperadas (A e D no Excel; C e T no CSV).''"

text \<open>The \<^verbatim>\<open>except Exception as e\<close> branch.\<close>

definition on_exception :: "string \<Rightarrow> string list \<times> frame option \<times> frame option" where
  "on_exception e = ([mensagem_erro, ''Detalhe do erro: '' @ e], None, None)"

definition carregar_dados_upload ::
  "'c reader \<Rightarrow> 'x reader \<Rightarrow> 'c \<Rightarrow> 'x \<Rightarrow> string list \<times> frame option \<times> frame option" where
  "carregar_dados_upload read_csv read_excel arquivo_csv arquivo_xlsx =
     (case read_csv arquivo_csv of
        Inl e \<Rightarrow> on_exception e
      | Inr t_algar \<Rightarrow>
          (case read_excel arquivo_xlsx of
             Inl e \<Rightarrow> on_exception e
           | Inr t_data \<Rightarrow>
               ([],
                Some (map (\<lambda>(c2, c19). \<lparr>protocolo = c2, status = c19\<rparr>) t_algar),
                Some (map (\<lambda>(c0, c3). \<lparr>protocolo = c3, status = c0\<rparr>) t_data))))"

section \<open>The notions of the specification\<close>

text \<open>
  The specification speaks of a field that is missing or empty. A cell is empty in
  this sense when it is missing or holds the text of length zero.
\<close>

definition spec_empty :: "cell \<Rightarrow> bool" where
  "spec_empty c = (c = None \<or> c = Some [])"

text \<open>
  The number that the specification gives for the size of the two outcome sets
  together: the rows of the inner join with a non-empty status on both sides.
\<close>

definition spec_outcome_size :: "frames \<Rightarrow> nat" where
  "spec_outcome_size s =
     length (filter (\<lambda>j. \<not> spec_empty (STATUS_ALGAR j) \<and> \<not> spec_empty (STATUS_AG j))
               (df_merged s))"

section \<open>Example inputs\<close>

text \<open>The end-to-end example of the specification.\<close>

definition exemplo :: frames where
  "exemplo =
     \<lparr>df_algar = [\<lparr>protocolo = Some (latin1 ''001''), status = Some (latin1 ''FECHADO'')\<rparr>,
                  \<lparr>protocolo = Some (latin1 ''002''), status = Some (latin1 ''PENDENTE'')\<rparr>,
                  \<lparr>protocolo = Some (latin1 ''003''), status = Some (latin1 ''INSTALADO'')\<rparr>],
      df_data = [\<lparr>protocolo = Some (latin1 ''001''), status = Some (latin1 ''INSTALADO'')\<rparr>,
                 \<lparr>protocolo = Some (latin1 ''002''), status = Some (latin1 ''PENDENTE'')\<rparr>,
                 \<lparr>protocolo = Some (latin1 ''004''), status = Some (latin1 ''CANCELADO'')\<rparr>]\<rparr>"

section \<open>Properties of the string methods\<close>

lemma latin1_eq_iff [simp]: "latin1 s = latin1 t \<longleftrightarrow> s = t"
proof -
  have "inj Latin1"
    by (simp add: inj_def)
  then show ?thesis
    by (simp add: latin1_def inj_map_eq_map)
qed

lemma latin1_Nil [simp]: "latin1 [] = []"
  by (simp add: latin1_def)

lemma rstrip_Cons:
  "rstrip (c # s) = (if \<forall>x\<in>set s. isspace x then (if isspace c then [] else [c]) else c # rstrip s)"
  by (simp add: rstrip_def dropWhile_append)

lemma rstrip_Nil: "rstrip [] = []"
  by (simp add: rstrip_def)

lemma rstrip_all_space: "\<forall>x\<in>set s. isspace x \<Longrightarrow> rstrip s = []"
  by (simp add: rstrip_def)

lemma rstrip_eq_Nil: "rstrip s = [] \<longleftrightarrow> (\<forall>x\<in>set s. isspace x)"
  by (auto simp add: rstrip_def dropWhile_eq_Nil_conv)

lemma lstrip_rstrip: "lstrip (rstrip s) = rstrip (lstrip s)"
proof (induction s)
  case Nil
  show ?case by (simp add: lstrip_def rstrip_Nil)
next
  case (Cons c s)
  show ?case
  proof (cases "isspace c")
    case True
    then show ?thesis
      using Cons
      by (auto simp add: rstrip_Cons lstrip_def rstrip_all_space dest: set_dropWhileD)
  next
    case False
    then show ?thesis
      by (simp add: rstrip_Cons lstrip_def)
  qed
qed

lemma lstrip_idem: "lstrip (lstrip s) = lstrip s"
  by (simp add: lstrip_def)

lemma rstrip_idem: "rstrip (rstrip s) = rstrip s"
  by (simp add: rstrip_def)

lemma strip_strip: "strip (strip s) = strip s"
  by (simp add: strip_def lstrip_rstrip lstrip_idem rstrip_idem)

lemma upper_char_space: "isspace c \<Longrightarrow> upper_char c = [c]"
  by (cases c) (auto simp add: Let_def)

lemma upper_char_not_Nil: "upper_char c \<noteq> []"
  by (cases c) (simp_all add: Let_def)

lemma upper_char_not_space: "\<not> isspace c \<Longrightarrow> d \<in> set (upper_char c) \<Longrightarrow> \<not> isspace d"
  by (cases c) (auto simp add: Let_def split: if_splits)

lemma upper_char_fixed: "d \<in> set (upper_char c) \<Longrightarrow> upper_char d = [d]"
  by (cases c) (auto simp add: Let_def split: if_splits)

lemma dropWhile_concat_map:
  assumes "\<And>c. isspace c \<Longrightarrow> f c = [c]"
    and "\<And>c. \<not> isspace c \<Longrightarrow> f c \<noteq> [] \<and> (\<forall>d\<in>set (f c). \<not> isspace d)"
  shows "dropWhile isspace (concat (map f s)) = concat (map f (dropWhile isspace s))"
proof (induction s)
  case Nil
  show ?case by simp
next
  case (Cons c s)
  show ?case
  proof (cases "isspace c")
    case True
    with Cons assms(1) [of c] show ?thesis by simp
  next
    case False
    with assms(2) [of c] obtain d ds where "f c = d # ds" "\<not> isspace d"
      by (cases "f c") auto
    with False show ?thesis by simp
  qed
qed

lemma lstrip_upper: "lstrip (upper s) = upper (lstrip s)"
  unfolding lstrip_def upper_def
  by (rule dropWhile_concat_map) (auto simp add: upper_char_space upper_char_not_Nil dest: upper_char_not_space)

lemma rstrip_upper: "rstrip (upper s) = upper (rstrip s)"
proof -
  have "dropWhile isspace (concat (map (rev \<circ> upper_char) (rev s)))
        = concat (map (rev \<circ> upper_char) (dropWhile isspace (rev s)))"
    by (rule dropWhile_concat_map) (auto simp add: upper_char_space upper_char_not_Nil dest: upper_char_not_space)
  then show ?thesis
    by (simp add: rstrip_def upper_def rev_concat rev_map o_def)
qed

lemma strip_upper: "strip (upper s) = upper (strip s)"
  by (simp add: strip_def lstrip_upper rstrip_upper)

lemma upper_upper: "upper (upper s) = upper s"
proof (induction s)
  case Nil
  show ?case by (simp add: upper_def)
next
  case (Cons c s)
  have "concat (map upper_char (upper_char c)) = upper_char c"
  proof -
    have "map upper_char (upper_char c) = map (\<lambda>d. [d]) (upper_char c)"
      by (rule map_cong) (auto dest: upper_char_fixed)
    then have "concat (map upper_char (upper_char c)) = concat (map (\<lambda>d. [d]) (upper_char c))"
      by (rule arg_cong)
    also have "\<dots> = upper_char c"
      by simp
    finally show ?thesis .
  qed
  with Cons show ?case by (simp add: upper_def)
qed

section \<open>Properties of the frame operations\<close>

lemma padronizar_status:
  "(if dtype_object (map status df) then assign_status (str_upper \<circ> str_strip) df else df)
   = assign_status (str_upper \<circ> str_strip) df"
proof (cases "dtype_object (map status df)")
  case True
  then show ?thesis by simp
next
  case False
  then have "\<forall>r\<in>set df. status r = None"
    by (simp add: dtype_object_def list_ex_iff)
  then have "map (\<lambda>r. r\<lparr>status := (str_upper \<circ> str_strip) (status r)\<rparr>) df = map (\<lambda>r. r) df"
    by (intro map_cong) (auto simp add: str_upper_def str_strip_def)
  with False show ?thesis by (simp add: assign_status_def)
qed

lemma padronizar_map:
  "padronizar df =
     map (\<lambda>r. \<lparr>protocolo = str_upper (str_strip (str_strip (astype_str (protocolo r)))),
               status = str_upper (str_strip (status r))\<rparr>) df"
proof -
  have "padronizar df = assign_status (str_upper \<circ> str_strip)
      (assign_protocolo (str_upper \<circ> str_strip) (assign_protocolo (str_strip \<circ> astype_str) df))"
    unfolding padronizar_def Let_def padronizar_status ..
  then show ?thesis
    by (simp add: assign_status_def assign_protocolo_def comp_def)
qed

lemma limpar:
  "padronizar (dropna_protocolo df) =
     map (\<lambda>r. \<lparr>protocolo = map_option (upper \<circ> strip) (protocolo r),
               status = map_option (upper \<circ> strip) (status r)\<rparr>)
         (filter (\<lambda>r. protocolo r \<noteq> None) df)"
  unfolding padronizar_map dropna_protocolo_def
  by (rule map_cong)
     (auto simp add: str_upper_def str_strip_def astype_str_def strip_strip option.map_comp)

lemma select3_add_norm: "select3 (add_norm j) = j"
  by (simp add: select3_def add_norm_def joined.extend_def joined.truncate_def)

lemma mask_add_norm:
  "divergencias_mask (add_norm j) = cell_ne (replace_fechado (STATUS_ALGAR j)) (replace_fechado (STATUS_AG j))"
  by (simp add: divergencias_mask_def add_norm_def joined.extend_def)

lemma df_divergente_eq:
  "df_divergente s = filter (\<lambda>j. cell_ne (replace_fechado (STATUS_ALGAR j)) (replace_fechado (STATUS_AG j)))
     (dropna_status (df_merged s))"
  by (simp add: processar_e_comparar_def Let_def filter_map comp_def select3_add_norm mask_add_norm)

lemma df_igual_eq:
  "df_igual s = filter (\<lambda>j. \<not> cell_ne (replace_fechado (STATUS_ALGAR j)) (replace_fechado (STATUS_AG j)))
     (dropna_status (df_merged s))"
  by (simp add: processar_e_comparar_def Let_def filter_map comp_def select3_add_norm mask_add_norm)

lemma frames_after_eq:
  "frames_after s = \<lparr>df_algar = padronizar (dropna_protocolo (df_algar s)),
                    df_data = padronizar (dropna_protocolo (df_data s))\<rparr>"
  by (simp add: processar_e_comparar_def Let_def)

lemma set_merge_inner:
  "set (merge_inner l r) =
     {\<lparr>PROTOCOLO = protocolo a, STATUS_ALGAR = status a, STATUS_AG = status b\<rparr> | a b.
        a \<in> set l \<and> b \<in> set r \<and> protocolo b = protocolo a}"
  by (auto simp add: merge_inner_def)

lemma in_limpar:
  "r' \<in> set (padronizar (dropna_protocolo df)) \<longleftrightarrow>
     (\<exists>r i. r \<in> set df \<and> protocolo r = Some i \<and>
        r' = \<lparr>protocolo = Some (upper (strip i)),
              status = map_option (upper \<circ> strip) (status r)\<rparr>)"
  (is "?L \<longleftrightarrow> ?R")
proof
  assume ?L
  then obtain r where r: "r \<in> set df" "protocolo r \<noteq> None"
    and r': "r' = \<lparr>protocolo = map_option (upper \<circ> strip) (protocolo r),
                   status = map_option (upper \<circ> strip) (status r)\<rparr>"
    unfolding limpar by auto
  from r(2) obtain i where "protocolo r = Some i" by auto
  with r r' show ?R by auto
next
  assume ?R
  then obtain r i where r: "r \<in> set df" "protocolo r = Some i"
    and r': "r' = \<lparr>protocolo = Some (upper (strip i)),
                   status = map_option (upper \<circ> strip) (status r)\<rparr>"
    by blast
  from r have "r \<in> set (filter (\<lambda>r. protocolo r \<noteq> None) df)" by simp
  moreover from r r' have "r' = \<lparr>protocolo = map_option (upper \<circ> strip) (protocolo r),
                   status = map_option (upper \<circ> strip) (status r)\<rparr>" by simp
  ultimately show ?L unfolding limpar by (simp only: set_map image_iff) blast
qed

lemma in_merge_inner:
  "j \<in> set (merge_inner l r) \<longleftrightarrow>
     (\<exists>a b. a \<in> set l \<and> b \<in> set r \<and> protocolo b = protocolo a \<and>
        j = \<lparr>PROTOCOLO = protocolo a, STATUS_ALGAR = status a, STATUS_AG = status b\<rparr>)"
  unfolding set_merge_inner by blast

lemma in_df_merged:
  "j \<in> set (df_merged s) \<longleftrightarrow>
     (\<exists>a b i i'. a \<in> set (df_algar s) \<and> b \<in> set (df_data s) \<and> protocolo a = Some i \<and>
        protocolo b = Some i' \<and> upper (strip i) = upper (strip i') \<and>
        j = \<lparr>PROTOCOLO = Some (upper (strip i)),
             STATUS_ALGAR = map_option (upper \<circ> strip) (status a),
             STATUS_AG = map_option (upper \<circ> strip) (status b)\<rparr>)"
  (is "?L \<longleftrightarrow> ?R")
proof
  assume ?L
  then obtain a' b' where a': "a' \<in> set (padronizar (dropna_protocolo (df_algar s)))"
    and b': "b' \<in> set (padronizar (dropna_protocolo (df_data s)))"
    and k: "protocolo b' = protocolo a'"
    and j: "j = \<lparr>PROTOCOLO = protocolo a', STATUS_ALGAR = status a', STATUS_AG = status b'\<rparr>"
    unfolding frames_after_eq in_merge_inner frames.simps by blast
  from a' obtain a i where a: "a \<in> set (df_algar s)" "protocolo a = Some i"
    "a' = \<lparr>protocolo = Some (upper (strip i)), status = map_option (upper \<circ> strip) (status a)\<rparr>"
    unfolding in_limpar by blast
  from b' obtain b i' where b: "b \<in> set (df_data s)" "protocolo b = Some i'"
    "b' = \<lparr>protocolo = Some (upper (strip i')), status = map_option (upper \<circ> strip) (status b)\<rparr>"
    unfolding in_limpar by blast
  from k a(3) b(3) have "upper (strip i) = upper (strip i')" by simp
  moreover from j a(3) b(3) have "j = \<lparr>PROTOCOLO = Some (upper (strip i)),
             STATUS_ALGAR = map_option (upper \<circ> strip) (status a),
             STATUS_AG = map_option (upper \<circ> strip) (status b)\<rparr>" by simp
  ultimately show ?R using a(1,2) b(1,2) by blast
next
  assume ?R
  then obtain a b i i' where a: "a \<in> set (df_algar s)" "protocolo a = Some i"
    and b: "b \<in> set (df_data s)" "protocolo b = Some i'"
    and k: "upper (strip i) = upper (strip i')"
    and j: "j = \<lparr>PROTOCOLO = Some (upper (strip i)),
             STATUS_ALGAR = map_option (upper \<circ> strip) (status a),
             STATUS_AG = map_option (upper \<circ> strip) (status b)\<rparr>"
    by blast
  define a' where "a' = \<lparr>protocolo = Some (upper (strip i)), status = map_option (upper \<circ> strip) (status a)\<rparr>"
  define b' where "b' = \<lparr>protocolo = Some (upper (strip i')), status = map_option (upper \<circ> strip) (status b)\<rparr>"
  have "a' \<in> set (padronizar (dropna_protocolo (df_algar s)))"
    unfolding in_limpar a'_def using a by blast
  moreover have "b' \<in> set (padronizar (dropna_protocolo (df_data s)))"
    unfolding in_limpar b'_def using b by blast
  moreover have "protocolo b' = protocolo a'"
    using k by (simp add: a'_def b'_def)
  moreover have "j = \<lparr>PROTOCOLO = protocolo a', STATUS_ALGAR = status a', STATUS_AG = status b'\<rparr>"
    using j by (simp add: a'_def b'_def)
  ultimately show ?L
    unfolding frames_after_eq in_merge_inner frames.simps by blast
qed

lemma cell_ne_Some:
  "cell_ne (replace_fechado (Some x)) (replace_fechado (Some y)) \<longleftrightarrow>
     (if x = latin1 ''FECHADO'' then latin1 ''INSTALADO'' else x) \<noteq> (if y = latin1 ''FECHADO'' then latin1 ''INSTALADO'' else y)"
  by (simp add: cell_ne_def replace_fechado_def)

lemma in_df_divergente:
  "j \<in> set (df_divergente s) \<longleftrightarrow>
     j \<in> set (df_merged s) \<and> (\<exists>x y. STATUS_ALGAR j = Some x \<and> STATUS_AG j = Some y \<and>
        (if x = latin1 ''FECHADO'' then latin1 ''INSTALADO'' else x) \<noteq> (if y = latin1 ''FECHADO'' then latin1 ''INSTALADO'' else y))"
proof (cases "STATUS_ALGAR j")
  case None
  then show ?thesis by (simp add: df_divergente_eq dropna_status_def)
next
  case a: (Some x)
  show ?thesis
  proof (cases "STATUS_AG j")
    case None
    then show ?thesis by (simp add: df_divergente_eq dropna_status_def)
  next
    case (Some y)
    with a show ?thesis
      by (simp add: df_divergente_eq dropna_status_def cell_ne_Some)
  qed
qed

lemma in_df_igual:
  "j \<in> set (df_igual s) \<longleftrightarrow>
     j \<in> set (df_merged s) \<and> (\<exists>x y. STATUS_ALGAR j = Some x \<and> STATUS_AG j = Some y \<and>
        (if x = latin1 ''FECHADO'' then latin1 ''INSTALADO'' else x) = (if y = latin1 ''FECHADO'' then latin1 ''INSTALADO'' else y))"
proof (cases "STATUS_ALGAR j")
  case None
  then show ?thesis by (simp add: df_igual_eq dropna_status_def)
next
  case a: (Some x)
  show ?thesis
  proof (cases "STATUS_AG j")
    case None
    then show ?thesis by (simp add: df_igual_eq dropna_status_def)
  next
    case (Some y)
    with a show ?thesis
      by (simp add: df_igual_eq dropna_status_def cell_ne_Some)
  qed
qed

lemma df_divergente_subset: "j \<in> set (df_divergente s) \<Longrightarrow> j \<in> set (df_merged s)"
  by (simp add: in_df_divergente)

lemma df_igual_subset: "j \<in> set (df_igual s) \<Longrightarrow> j \<in> set (df_merged s)"
  by (simp add: in_df_igual)

lemma in_outcome:
  "j \<in> set (df_divergente s) \<union> set (df_igual s) \<longleftrightarrow>
     j \<in> set (df_merged s) \<and> STATUS_ALGAR j \<noteq> None \<and> STATUS_AG j \<noteq> None"
proof -
  have "set (df_divergente s) \<union> set (df_igual s) = set (dropna_status (df_merged s))"
    unfolding df_divergente_eq df_igual_eq set_filter by blast
  then show ?thesis
    by (simp add: dropna_status_def)
qed

lemma notin_image: "\<forall>x\<in>S. f x \<noteq> y \<Longrightarrow> y \<notin> f ` S"
  by auto

lemma dropna_status_merge_inner:
  "dropna_status (merge_inner l r) =
     merge_inner (filter (\<lambda>a. status a \<noteq> None) l) (filter (\<lambda>b. status b \<noteq> None) r)"
proof (induction l)
  case Nil
  show ?case by (simp add: merge_inner_def dropna_status_def)
next
  case (Cons a l)
  have "filter (\<lambda>j. STATUS_ALGAR j \<noteq> None \<and> STATUS_AG j \<noteq> None)
          (map (\<lambda>b. \<lparr>PROTOCOLO = protocolo a, STATUS_ALGAR = status a, STATUS_AG = status b\<rparr>)
             (filter (\<lambda>b. protocolo b = protocolo a) r)) =
        (if status a \<noteq> None
         then map (\<lambda>b. \<lparr>PROTOCOLO = protocolo a, STATUS_ALGAR = status a, STATUS_AG = status b\<rparr>)
                (filter (\<lambda>b. protocolo b = protocolo a) (filter (\<lambda>b. status b \<noteq> None) r))
         else [])"
    by (simp add: filter_map comp_def conj_commute del: not_None_eq)
  with Cons show ?case
    by (simp add: merge_inner_def dropna_status_def del: not_None_eq)
qed

lemma filter_status_limpar:
  "filter (\<lambda>r. status r \<noteq> None) (padronizar (dropna_protocolo df)) =
     padronizar (dropna_protocolo (filter (\<lambda>r. status r \<noteq> None) df))"
  unfolding limpar
  by (simp add: filter_map comp_def conj_commute del: not_None_eq)

lemma dropna_merge_limpar:
  "dropna_status (merge_inner (padronizar (dropna_protocolo a)) (padronizar (dropna_protocolo b))) =
     merge_inner (padronizar (dropna_protocolo (filter (\<lambda>r. status r \<noteq> None) a)))
                 (padronizar (dropna_protocolo (filter (\<lambda>r. status r \<noteq> None) b)))"
  by (simp only: dropna_status_merge_inner filter_status_limpar)

lemma outcome_eq:
  "snd (processar_e_comparar s) =
     (filter (\<lambda>j. cell_ne (replace_fechado (STATUS_ALGAR j)) (replace_fechado (STATUS_AG j)))
        (dropna_status (df_merged s)),
      filter (\<lambda>j. \<not> cell_ne (replace_fechado (STATUS_ALGAR j)) (replace_fechado (STATUS_AG j)))
        (dropna_status (df_merged s)))"
  by (simp only: prod_eq_iff fst_conv snd_conv df_divergente_eq df_igual_eq simp_thms)

lemma dropna_df_merged:
  "dropna_status (df_merged s) =
     merge_inner (padronizar (dropna_protocolo (filter (\<lambda>r. status r \<noteq> None) (df_algar s))))
                 (padronizar (dropna_protocolo (filter (\<lambda>r. status r \<noteq> None) (df_data s))))"
  unfolding frames_after_eq frames.simps by (rule dropna_merge_limpar)

lemma dropna_protocolo_filter:
  "dropna_protocolo (filter (\<lambda>r. protocolo r \<noteq> None) df) = dropna_protocolo df"
  by (simp add: dropna_protocolo_def)

lemma processar_via_frames:
  "processar_e_comparar s =
     (let algar = padronizar (dropna_protocolo (df_algar s));
          data = padronizar (dropna_protocolo (df_data s));
          m = dropna_status (merge_inner algar data)
      in (\<lparr>df_algar = algar, df_data = data\<rparr>,
          filter (\<lambda>j. cell_ne (replace_fechado (STATUS_ALGAR j)) (replace_fechado (STATUS_AG j))) m,
          filter (\<lambda>j. \<not> cell_ne (replace_fechado (STATUS_ALGAR j)) (replace_fechado (STATUS_AG j))) m))"
  by (simp add: processar_e_comparar_def Let_def filter_map comp_def select3_add_norm mask_add_norm)

lemma normalise_idem: "upper (strip (upper (strip x))) = upper (strip x)"
  by (simp add: strip_upper strip_strip upper_upper)

lemma limpar_idem:
  "padronizar (dropna_protocolo (padronizar (dropna_protocolo df))) =
     padronizar (dropna_protocolo df)"
proof -
  have "map_option (upper \<circ> strip) (map_option (upper \<circ> strip) c) = map_option (upper \<circ> strip) c"
    for c :: cell
    by (cases c) (simp_all add: normalise_idem)
  then show ?thesis
    unfolding limpar by (simp add: filter_map comp_def del: not_None_eq)
qed

lemma limpar_fixed:
  "padronizar (dropna_protocolo df) = df \<longleftrightarrow>
     (\<forall>r\<in>set df. protocolo r \<noteq> None \<and>
        map_option (upper \<circ> strip) (protocolo r) = protocolo r \<and>
        map_option (upper \<circ> strip) (status r) = status r)"
  (is "?L \<longleftrightarrow> ?R")
proof
  let ?f = "\<lambda>r. \<lparr>protocolo = map_option (upper \<circ> strip) (protocolo r),
               status = map_option (upper \<circ> strip) (status r)\<rparr>"
  let ?p = "\<lambda>r. protocolo r \<noteq> None"
  assume l: ?L
  from arg_cong [OF l, of length] have len: "length (filter ?p df) = length df"
    unfolding limpar by simp
  have p: "\<forall>r\<in>set df. ?p r"
  proof (rule ccontr)
    assume "\<not> (\<forall>r\<in>set df. ?p r)"
    then obtain r where "r \<in> set df" and "\<not> ?p r" by blast
    then have "length (filter ?p df) < length df"
      by (rule length_filter_less)
    with len show False by simp
  qed
  then have "filter ?p df = df"
    by (simp only: filter_id_conv)
  with l have m: "map ?f df = map (\<lambda>r. r) df"
    unfolding limpar by simp
  have "\<forall>r\<in>set df. map_option (upper \<circ> strip) (protocolo r) = protocolo r \<and>
        map_option (upper \<circ> strip) (status r) = status r"
  proof
    fix r
    assume "r \<in> set df"
    with m have e: "?f r = r"
      by (simp only: map_eq_conv)
    from arg_cong [OF e, of protocolo] arg_cong [OF e, of status]
    show "map_option (upper \<circ> strip) (protocolo r) = protocolo r \<and>
        map_option (upper \<circ> strip) (status r) = status r"
      by simp
  qed
  with p show ?R by blast
next
  let ?f = "\<lambda>r. \<lparr>protocolo = map_option (upper \<circ> strip) (protocolo r),
               status = map_option (upper \<circ> strip) (status r)\<rparr>"
  let ?p = "\<lambda>r. protocolo r \<noteq> None"
  assume r: ?R
  then have "filter ?p df = df"
    by (simp only: filter_id_conv) blast
  moreover from r have "\<forall>r\<in>set df. ?f r = r"
    by simp
  then have "map ?f df = df"
    by (simp only: map_idI)
  ultimately show ?L
    unfolding limpar by simp
qed

lemma length_filter_merge_inner:
  "length (filter (\<lambda>j. PROTOCOLO j = k \<and> P (STATUS_ALGAR j) \<and> Q (STATUS_AG j)) (merge_inner l r)) =
     length (filter (\<lambda>a. protocolo a = k \<and> P (status a)) l) *
     length (filter (\<lambda>b. protocolo b = k \<and> Q (status b)) r)"
proof (induction l)
  case Nil
  show ?case by (simp add: merge_inner_def)
next
  case (Cons a l)
  have "filter (\<lambda>j. PROTOCOLO j = k \<and> P (STATUS_ALGAR j) \<and> Q (STATUS_AG j))
          (map (\<lambda>b. \<lparr>PROTOCOLO = protocolo a, STATUS_ALGAR = status a, STATUS_AG = status b\<rparr>)
             (filter (\<lambda>b. protocolo b = protocolo a) r)) =
        (if protocolo a = k \<and> P (status a)
         then map (\<lambda>b. \<lparr>PROTOCOLO = protocolo a, STATUS_ALGAR = status a, STATUS_AG = status b\<rparr>)
                (filter (\<lambda>b. protocolo b = k \<and> Q (status b)) r)
         else [])"
    by (auto simp add: filter_map comp_def intro: filter_cong)
  with Cons show ?case
    by (simp add: merge_inner_def)
qed

lemma length_filter_limpar:
  "length (filter (\<lambda>a. protocolo a = Some k \<and> P (status a)) (padronizar (dropna_protocolo df))) =
     length (filter (\<lambda>r. map_option (upper \<circ> strip) (protocolo r) = Some k \<and>
                          P (map_option (upper \<circ> strip) (status r))) df)"
proof -
  have "filter (\<lambda>r. protocolo r \<noteq> None \<and> map_option (upper \<circ> strip) (protocolo r) = Some k \<and>
              P (map_option (upper \<circ> strip) (status r))) df =
        filter (\<lambda>r. map_option (upper \<circ> strip) (protocolo r) = Some k \<and>
              P (map_option (upper \<circ> strip) (status r))) df"
    by (rule filter_cong) auto
  then show ?thesis
    unfolding limpar by (simp add: filter_map comp_def del: not_None_eq)
qed

lemma length_filter_split:
  "length (filter K (filter D m)) + length (filter K (filter (\<lambda>j. \<not> D j) m)) = length (filter K m)"
proof -
  have "filter K (filter D m) = filter D (filter K m)"
    and "filter K (filter (\<lambda>j. \<not> D j) m) = filter (\<lambda>j. \<not> D j) (filter K m)"
    by (simp_all add: conj_commute)
  then show ?thesis
    by (simp only: sum_length_filter_compl)
qed

section \<open>The claims\<close>

subsection \<open>Claim C1\<close>

text \<open>
  Claim C1. A row is in the equal frame exactly when it is the join of a carrier row and
  an internal row whose statuses, trimmed and uppercased, are equal after FECHADO has
  been rewritten to INSTALADO on each side; it is in the divergent frame exactly when
  they differ after the rewriting. In both frames the row carries the trimmed and
  uppercased statuses, not the rewritten ones. The pair FECHADO and INSTALADO is
  therefore classified as equal and reported as FECHADO and INSTALADO.
\<close>

theorem classification_after_rewrite:
  "(j \<in> set (df_igual s) \<longleftrightarrow>
      (\<exists>a b i i' x y. a \<in> set (df_algar s) \<and> b \<in> set (df_data s) \<and>
         protocolo a = Some i \<and> protocolo b = Some i' \<and> upper (strip i) = upper (strip i') \<and>
         status a = Some x \<and> status b = Some y \<and>
         j = \<lparr>PROTOCOLO = Some (upper (strip i)), STATUS_ALGAR = Some (upper (strip x)),
              STATUS_AG = Some (upper (strip y))\<rparr> \<and>
         (if upper (strip x) = latin1 ''FECHADO'' then latin1 ''INSTALADO'' else upper (strip x)) =
         (if upper (strip y) = latin1 ''FECHADO'' then latin1 ''INSTALADO'' else upper (strip y)))) \<and>
   (j \<in> set (df_divergente s) \<longleftrightarrow>
      (\<exists>a b i i' x y. a \<in> set (df_algar s) \<and> b \<in> set (df_data s) \<and>
         protocolo a = Some i \<and> protocolo b = Some i' \<and> upper (strip i) = upper (strip i') \<and>
         status a = Some x \<and> status b = Some y \<and>
         j = \<lparr>PROTOCOLO = Some (upper (strip i)), STATUS_ALGAR = Some (upper (strip x)),
              STATUS_AG = Some (upper (strip y))\<rparr> \<and>
         (if upper (strip x) = latin1 ''FECHADO'' then latin1 ''INSTALADO'' else upper (strip x)) \<noteq>
         (if upper (strip y) = latin1 ''FECHADO'' then latin1 ''INSTALADO'' else upper (strip y))))"
proof -
  have m: "j \<in> set (df_merged s) \<and> STATUS_ALGAR j = Some x' \<and> STATUS_AG j = Some y' \<longleftrightarrow>
      (\<exists>a b i i' x y. a \<in> set (df_algar s) \<and> b \<in> set (df_data s) \<and>
         protocolo a = Some i \<and> protocolo b = Some i' \<and> upper (strip i) = upper (strip i') \<and>
         status a = Some x \<and> status b = Some y \<and>
         j = \<lparr>PROTOCOLO = Some (upper (strip i)), STATUS_ALGAR = Some (upper (strip x)),
              STATUS_AG = Some (upper (strip y))\<rparr> \<and> x' = upper (strip x) \<and> y' = upper (strip y))"
    (is "?L \<longleftrightarrow> ?R") for x' y'
  proof
    assume ?L
    then obtain a b i i' where ab: "a \<in> set (df_algar s)" "b \<in> set (df_data s)"
      "protocolo a = Some i" "protocolo b = Some i'" "upper (strip i) = upper (strip i')"
      and j: "j = \<lparr>PROTOCOLO = Some (upper (strip i)),
             STATUS_ALGAR = map_option (upper \<circ> strip) (status a),
             STATUS_AG = map_option (upper \<circ> strip) (status b)\<rparr>"
      and st: "STATUS_ALGAR j = Some x'" "STATUS_AG j = Some y'"
      unfolding in_df_merged by blast
    from j st obtain x y where xy: "status a = Some x" "status b = Some y"
      "x' = upper (strip x)" "y' = upper (strip y)"
      by auto
    with j have "j = \<lparr>PROTOCOLO = Some (upper (strip i)), STATUS_ALGAR = Some (upper (strip x)),
              STATUS_AG = Some (upper (strip y))\<rparr>" by simp
    with ab xy show ?R by blast
  next
    assume ?R
    then obtain a b i i' x y where ab: "a \<in> set (df_algar s)" "b \<in> set (df_data s)"
      "protocolo a = Some i" "protocolo b = Some i'" "upper (strip i) = upper (strip i')"
      and xy: "status a = Some x" "status b = Some y" "x' = upper (strip x)" "y' = upper (strip y)"
      and j: "j = \<lparr>PROTOCOLO = Some (upper (strip i)), STATUS_ALGAR = Some (upper (strip x)),
              STATUS_AG = Some (upper (strip y))\<rparr>"
      by blast
    from j xy have "j = \<lparr>PROTOCOLO = Some (upper (strip i)),
             STATUS_ALGAR = map_option (upper \<circ> strip) (status a),
             STATUS_AG = map_option (upper \<circ> strip) (status b)\<rparr>" by simp
    with ab have "j \<in> set (df_merged s)" unfolding in_df_merged by blast
    moreover from j xy have "STATUS_ALGAR j = Some x'" "STATUS_AG j = Some y'" by simp_all
    ultimately show ?L by simp
  qed
  have "j \<in> set (df_igual s) \<longleftrightarrow> (\<exists>x' y'. (j \<in> set (df_merged s) \<and> STATUS_ALGAR j = Some x' \<and> STATUS_AG j = Some y') \<and>
        (if x' = latin1 ''FECHADO'' then latin1 ''INSTALADO'' else x') = (if y' = latin1 ''FECHADO'' then latin1 ''INSTALADO'' else y'))"
    unfolding in_df_igual by blast
  then have 1: "j \<in> set (df_igual s) \<longleftrightarrow>
      (\<exists>a b i i' x y. a \<in> set (df_algar s) \<and> b \<in> set (df_data s) \<and>
         protocolo a = Some i \<and> protocolo b = Some i' \<and> upper (strip i) = upper (strip i') \<and>
         status a = Some x \<and> status b = Some y \<and>
         j = \<lparr>PROTOCOLO = Some (upper (strip i)), STATUS_ALGAR = Some (upper (strip x)),
              STATUS_AG = Some (upper (strip y))\<rparr> \<and>
         (if upper (strip x) = latin1 ''FECHADO'' then latin1 ''INSTALADO'' else upper (strip x)) =
         (if upper (strip y) = latin1 ''FECHADO'' then latin1 ''INSTALADO'' else upper (strip y)))"
    unfolding m by blast
  have "j \<in> set (df_divergente s) \<longleftrightarrow> (\<exists>x' y'. (j \<in> set (df_merged s) \<and> STATUS_ALGAR j = Some x' \<and> STATUS_AG j = Some y') \<and>
        (if x' = latin1 ''FECHADO'' then latin1 ''INSTALADO'' else x') \<noteq> (if y' = latin1 ''FECHADO'' then latin1 ''INSTALADO'' else y'))"
    unfolding in_df_divergente by blast
  then have 2: "j \<in> set (df_divergente s) \<longleftrightarrow>
      (\<exists>a b i i' x y. a \<in> set (df_algar s) \<and> b \<in> set (df_data s) \<and>
         protocolo a = Some i \<and> protocolo b = Some i' \<and> upper (strip i) = upper (strip i') \<and>
         status a = Some x \<and> status b = Some y \<and>
         j = \<lparr>PROTOCOLO = Some (upper (strip i)), STATUS_ALGAR = Some (upper (strip x)),
              STATUS_AG = Some (upper (strip y))\<rparr> \<and>
         (if upper (strip x) = latin1 ''FECHADO'' then latin1 ''INSTALADO'' else upper (strip x)) \<noteq>
         (if upper (strip y) = latin1 ''FECHADO'' then latin1 ''INSTALADO'' else upper (strip y)))"
    unfolding m by blast
  from 1 2 show ?thesis by (rule conjI)
qed

text \<open>The pair FECHADO and INSTALADO of the specification.\<close>

theorem classification_after_rewrite_witness:
  "\<lparr>PROTOCOLO = Some (latin1 ''001''), STATUS_ALGAR = Some (latin1 ''FECHADO''), STATUS_AG = Some (latin1 ''INSTALADO'')\<rparr>
     \<in> set (df_igual \<lparr>df_algar = [\<lparr>protocolo = Some (latin1 ''001''), status = Some (latin1 ''FECHADO'')\<rparr>],
                      df_data = [\<lparr>protocolo = Some (latin1 ''001''), status = Some (latin1 ''INSTALADO'')\<rparr>]\<rparr>) \<and>
   \<lparr>PROTOCOLO = Some (latin1 ''001''), STATUS_ALGAR = Some (latin1 ''FECHADO''), STATUS_AG = Some (latin1 ''INSTALADO'')\<rparr>
     \<notin> set (df_divergente \<lparr>df_algar = [\<lparr>protocolo = Some (latin1 ''001''), status = Some (latin1 ''FECHADO'')\<rparr>],
                      df_data = [\<lparr>protocolo = Some (latin1 ''001''), status = Some (latin1 ''INSTALADO'')\<rparr>]\<rparr>)"
proof -
  have u: "upper (strip (latin1 ''001'')) = latin1 ''001''" "upper (strip (latin1 ''FECHADO'')) = latin1 ''FECHADO''"
    "upper (strip (latin1 ''INSTALADO'')) = latin1 ''INSTALADO''"
    by code_simp+
  show ?thesis
    using classification_after_rewrite
      [of "\<lparr>PROTOCOLO = Some (latin1 ''001''), STATUS_ALGAR = Some (latin1 ''FECHADO''), STATUS_AG = Some (latin1 ''INSTALADO'')\<rparr>"
          "\<lparr>df_algar = [\<lparr>protocolo = Some (latin1 ''001''), status = Some (latin1 ''FECHADO'')\<rparr>],
            df_data = [\<lparr>protocolo = Some (latin1 ''001''), status = Some (latin1 ''INSTALADO'')\<rparr>]\<rparr>"]
    by (simp add: u)
qed

subsection \<open>Claim C2\<close>

text \<open>
  Claim C2, as the specification states it, with a status counted as non-empty when it is
  neither missing nor the text of length zero: it fails for a status of nothing but
  white space, which is stripped to the text of length zero, is not dropped and is
  classified.
\<close>

theorem outcome_partition_counterexample:
  "length (df_divergente \<lparr>df_algar = [\<lparr>protocolo = Some (latin1 ''1''), status = Some (latin1 '' '')\<rparr>],
                          df_data = [\<lparr>protocolo = Some (latin1 ''1''), status = Some (latin1 ''X'')\<rparr>]\<rparr>) +
   length (df_igual \<lparr>df_algar = [\<lparr>protocolo = Some (latin1 ''1''), status = Some (latin1 '' '')\<rparr>],
                     df_data = [\<lparr>protocolo = Some (latin1 ''1''), status = Some (latin1 ''X'')\<rparr>]\<rparr>) \<noteq>
   spec_outcome_size \<lparr>df_algar = [\<lparr>protocolo = Some (latin1 ''1''), status = Some (latin1 '' '')\<rparr>],
                      df_data = [\<lparr>protocolo = Some (latin1 ''1''), status = Some (latin1 ''X'')\<rparr>]\<rparr> \<and>
   df_divergente \<lparr>df_algar = [\<lparr>protocolo = Some (latin1 ''1''), status = Some (latin1 '' '')\<rparr>],
                  df_data = [\<lparr>protocolo = Some (latin1 ''1''), status = Some (latin1 ''X'')\<rparr>]\<rparr> =
     [\<lparr>PROTOCOLO = Some (latin1 ''1''), STATUS_ALGAR = Some (latin1 ''''), STATUS_AG = Some (latin1 ''X'')\<rparr>] \<and>
   spec_outcome_size \<lparr>df_algar = [\<lparr>protocolo = Some (latin1 ''1''), status = Some (latin1 '' '')\<rparr>],
                      df_data = [\<lparr>protocolo = Some (latin1 ''1''), status = Some (latin1 ''X'')\<rparr>]\<rparr> = 0"
  by code_simp

text \<open>
  Claim C2, amended. The divergent and the equal frame have no row in common, together
  they hold exactly the rows of the merged frame in which both statuses are present
  (not missing), each as often as it occurs there, and their sizes add up to the number
  of these rows.
\<close>

theorem outcome_partition:
  "set (df_divergente s) \<inter> set (df_igual s) = {} \<and>
   mset (df_divergente s) + mset (df_igual s) =
     mset (filter (\<lambda>j. STATUS_ALGAR j \<noteq> None \<and> STATUS_AG j \<noteq> None) (df_merged s)) \<and>
   length (df_divergente s) + length (df_igual s) =
     length (filter (\<lambda>j. STATUS_ALGAR j \<noteq> None \<and> STATUS_AG j \<noteq> None) (df_merged s))"
proof (intro conjI)
  show "set (df_divergente s) \<inter> set (df_igual s) = {}"
    unfolding df_divergente_eq df_igual_eq set_filter by blast
  show "mset (df_divergente s) + mset (df_igual s) =
     mset (filter (\<lambda>j. STATUS_ALGAR j \<noteq> None \<and> STATUS_AG j \<noteq> None) (df_merged s))"
    unfolding df_divergente_eq df_igual_eq dropna_status_def mset_filter
    by (rule multiset_partition [symmetric])
  show "length (df_divergente s) + length (df_igual s) =
     length (filter (\<lambda>j. STATUS_ALGAR j \<noteq> None \<and> STATUS_AG j \<noteq> None) (df_merged s))"
    unfolding df_divergente_eq df_igual_eq dropna_status_def
    by (rule sum_length_filter_compl)
qed

text \<open>In the example, the two outcome frames together have the two rows of the join.\<close>

theorem outcome_partition_witness:
  "length (df_divergente exemplo) + length (df_igual exemplo) = 2"
proof -
  have "length (filter (\<lambda>j. STATUS_ALGAR j \<noteq> None \<and> STATUS_AG j \<noteq> None) (df_merged exemplo)) = 2"
    by code_simp
  with outcome_partition [of exemplo] show ?thesis
    by simp
qed

subsection \<open>Claim C3\<close>

text \<open>
  Claim C3, as the specification states it: a status of nothing but white space is empty
  after trimming, and the joined row is still classified (here as divergent).
\<close>

theorem missing_status_excluded_counterexample:
  "spec_empty (STATUS_ALGAR \<lparr>PROTOCOLO = Some (latin1 ''1''), STATUS_ALGAR = Some (latin1 ''''), STATUS_AG = Some (latin1 ''X'')\<rparr>) \<and>
   \<lparr>PROTOCOLO = Some (latin1 ''1''), STATUS_ALGAR = Some (latin1 ''''), STATUS_AG = Some (latin1 ''X'')\<rparr>
     \<in> set (df_merged \<lparr>df_algar = [\<lparr>protocolo = Some (latin1 ''1''), status = Some (latin1 '' '')\<rparr>],
                        df_data = [\<lparr>protocolo = Some (latin1 ''1''), status = Some (latin1 ''X'')\<rparr>]\<rparr>) \<and>
   \<lparr>PROTOCOLO = Some (latin1 ''1''), STATUS_ALGAR = Some (latin1 ''''), STATUS_AG = Some (latin1 ''X'')\<rparr>
     \<in> set (df_divergente \<lparr>df_algar = [\<lparr>protocolo = Some (latin1 ''1''), status = Some (latin1 '' '')\<rparr>],
                            df_data = [\<lparr>protocolo = Some (latin1 ''1''), status = Some (latin1 ''X'')\<rparr>]\<rparr>)"
  by code_simp

text \<open>
  Claim C3, amended. A row of the merged frame in which either status is missing (a NaN
  cell) is in neither outcome frame, and the outcome is the same as for the inputs
  without the rows whose status is missing.
\<close>

theorem missing_status_excluded:
  "(\<forall>j\<in>set (df_merged s). STATUS_ALGAR j = None \<or> STATUS_AG j = None \<longrightarrow>
      j \<notin> set (df_divergente s) \<and> j \<notin> set (df_igual s)) \<and>
   snd (processar_e_comparar s) =
     snd (processar_e_comparar
            \<lparr>df_algar = filter (\<lambda>r. status r \<noteq> None) (df_algar s),
             df_data = filter (\<lambda>r. status r \<noteq> None) (df_data s)\<rparr>)"
proof
  show "\<forall>j\<in>set (df_merged s). STATUS_ALGAR j = None \<or> STATUS_AG j = None \<longrightarrow>
      j \<notin> set (df_divergente s) \<and> j \<notin> set (df_igual s)"
    using in_outcome [of _ s] by blast
next
  let ?s = "\<lparr>df_algar = filter (\<lambda>r. status r \<noteq> None) (df_algar s),
             df_data = filter (\<lambda>r. status r \<noteq> None) (df_data s)\<rparr>"
  have "dropna_status (df_merged ?s) = dropna_status (df_merged s)"
    unfolding dropna_df_merged by (simp del: not_None_eq)
  then show "snd (processar_e_comparar s) = snd (processar_e_comparar ?s)"
    unfolding outcome_eq by simp
qed

text \<open>A joined row with a missing carrier status.\<close>

theorem missing_status_excluded_witness:
  "\<lparr>PROTOCOLO = Some (latin1 ''1''), STATUS_ALGAR = None, STATUS_AG = Some (latin1 ''Y'')\<rparr>
     \<in> set (df_merged \<lparr>df_algar = [\<lparr>protocolo = Some (latin1 ''1''), status = None\<rparr>,
                                   \<lparr>protocolo = Some (latin1 ''2''), status = Some (latin1 ''X'')\<rparr>],
                        df_data = [\<lparr>protocolo = Some (latin1 ''1''), status = Some (latin1 ''Y'')\<rparr>,
                                   \<lparr>protocolo = Some (latin1 ''2''), status = Some (latin1 ''X'')\<rparr>]\<rparr>) \<and>
   \<lparr>PROTOCOLO = Some (latin1 ''1''), STATUS_ALGAR = None, STATUS_AG = Some (latin1 ''Y'')\<rparr>
     \<notin> set (df_divergente \<lparr>df_algar = [\<lparr>protocolo = Some (latin1 ''1''), status = None\<rparr>,
                                   \<lparr>protocolo = Some (latin1 ''2''), status = Some (latin1 ''X'')\<rparr>],
                        df_data = [\<lparr>protocolo = Some (latin1 ''1''), status = Some (latin1 ''Y'')\<rparr>,
                                   \<lparr>protocolo = Some (latin1 ''2''), status = Some (latin1 ''X'')\<rparr>]\<rparr>) \<and>
   \<lparr>PROTOCOLO = Some (latin1 ''1''), STATUS_ALGAR = None, STATUS_AG = Some (latin1 ''Y'')\<rparr>
     \<notin> set (df_igual \<lparr>df_algar = [\<lparr>protocolo = Some (latin1 ''1''), status = None\<rparr>,
                                   \<lparr>protocolo = Some (latin1 ''2''), status = Some (latin1 ''X'')\<rparr>],
                        df_data = [\<lparr>protocolo = Some (latin1 ''1''), status = Some (latin1 ''Y'')\<rparr>,
                                   \<lparr>protocolo = Some (latin1 ''2''), status = Some (latin1 ''X'')\<rparr>]\<rparr>)"
proof -
  let ?s = "\<lparr>df_algar = [\<lparr>protocolo = Some (latin1 ''1''), status = None\<rparr>,
                                   \<lparr>protocolo = Some (latin1 ''2''), status = Some (latin1 ''X'')\<rparr>],
                        df_data = [\<lparr>protocolo = Some (latin1 ''1''), status = Some (latin1 ''Y'')\<rparr>,
                                   \<lparr>protocolo = Some (latin1 ''2''), status = Some (latin1 ''X'')\<rparr>]\<rparr>"
  let ?j = "\<lparr>PROTOCOLO = Some (latin1 ''1''), STATUS_ALGAR = None, STATUS_AG = Some (latin1 ''Y'')\<rparr>"
  have m: "?j \<in> set (df_merged ?s)"
    by code_simp
  have n: "STATUS_ALGAR ?j = None \<or> STATUS_AG ?j = None"
    by simp
  from missing_status_excluded [of ?s] have
    "\<forall>j\<in>set (df_merged ?s). STATUS_ALGAR j = None \<or> STATUS_AG j = None \<longrightarrow>
      j \<notin> set (df_divergente ?s) \<and> j \<notin> set (df_igual ?s)"
    by (rule conjunct1)
  with m n have "?j \<notin> set (df_divergente ?s) \<and> ?j \<notin> set (df_igual ?s)"
    by blast
  with m show ?thesis by (rule conjI)
qed

subsection \<open>Claim C4\<close>

text \<open>
  Claim C4, as the specification states it: a row whose identifier is the text of length
  zero is kept by \<^verbatim>\<open>dropna\<close>, and it joins with a row whose identifier is nothing but
  white space.
\<close>

theorem missing_identifier_dropped_counterexample:
  "spec_empty (protocolo \<lparr>protocolo = Some (latin1 ''''), status = Some (latin1 ''X'')\<rparr>) \<and>
   df_algar (frames_after \<lparr>df_algar = [\<lparr>protocolo = Some (latin1 ''''), status = Some (latin1 ''X'')\<rparr>],
                           df_data = [\<lparr>protocolo = Some (latin1 '' ''), status = Some (latin1 ''X'')\<rparr>]\<rparr>) =
     [\<lparr>protocolo = Some (latin1 ''''), status = Some (latin1 ''X'')\<rparr>] \<and>
   df_igual \<lparr>df_algar = [\<lparr>protocolo = Some (latin1 ''''), status = Some (latin1 ''X'')\<rparr>],
             df_data = [\<lparr>protocolo = Some (latin1 '' ''), status = Some (latin1 ''X'')\<rparr>]\<rparr> =
     [\<lparr>PROTOCOLO = Some (latin1 ''''), STATUS_ALGAR = Some (latin1 ''X''), STATUS_AG = Some (latin1 ''X'')\<rparr>]"
  by code_simp

text \<open>
  Claim C4, amended. The rows whose identifier is missing (a NaN cell) are dropped from
  both frames before anything else happens: the comparison gives the same frames and the
  same outcome as for the inputs without these rows, and no row of the cleaned frames,
  of the merged frame or of an outcome frame has a missing identifier.
\<close>

theorem missing_identifier_dropped:
  "processar_e_comparar s =
     processar_e_comparar
       \<lparr>df_algar = filter (\<lambda>r. protocolo r \<noteq> None) (df_algar s),
        df_data = filter (\<lambda>r. protocolo r \<noteq> None) (df_data s)\<rparr> \<and>
   (\<forall>r\<in>set (df_algar (frames_after s)) \<union> set (df_data (frames_after s)). protocolo r \<noteq> None) \<and>
   (\<forall>j\<in>set (df_merged s) \<union> set (df_divergente s) \<union> set (df_igual s). PROTOCOLO j \<noteq> None)"
proof (intro conjI)
  show "processar_e_comparar s =
     processar_e_comparar
       \<lparr>df_algar = filter (\<lambda>r. protocolo r \<noteq> None) (df_algar s),
        df_data = filter (\<lambda>r. protocolo r \<noteq> None) (df_data s)\<rparr>"
    unfolding processar_via_frames frames.simps dropna_protocolo_filter ..
  show "\<forall>r\<in>set (df_algar (frames_after s)) \<union> set (df_data (frames_after s)). protocolo r \<noteq> None"
    unfolding frames_after_eq frames.simps using in_limpar by fastforce
  show "\<forall>j\<in>set (df_merged s) \<union> set (df_divergente s) \<union> set (df_igual s). PROTOCOLO j \<noteq> None"
  proof
    fix j
    assume "j \<in> set (df_merged s) \<union> set (df_divergente s) \<union> set (df_igual s)"
    then have "j \<in> set (df_merged s)"
      using df_divergente_subset df_igual_subset by blast
    then show "PROTOCOLO j \<noteq> None"
      unfolding in_df_merged by auto
  qed
qed

text \<open>Two frames with one row without identifier each.\<close>

theorem missing_identifier_dropped_witness:
  "processar_e_comparar
     \<lparr>df_algar = [\<lparr>protocolo = None, status = Some (latin1 ''X'')\<rparr>,
                  \<lparr>protocolo = Some (latin1 ''1''), status = Some (latin1 ''X'')\<rparr>],
      df_data = [\<lparr>protocolo = None, status = Some (latin1 ''X'')\<rparr>,
                 \<lparr>protocolo = Some (latin1 ''1''), status = Some (latin1 ''Y'')\<rparr>]\<rparr> =
   processar_e_comparar
     \<lparr>df_algar = [\<lparr>protocolo = Some (latin1 ''1''), status = Some (latin1 ''X'')\<rparr>],
      df_data = [\<lparr>protocolo = Some (latin1 ''1''), status = Some (latin1 ''Y'')\<rparr>]\<rparr>"
  using missing_identifier_dropped
    [of "\<lparr>df_algar = [\<lparr>protocolo = None, status = Some (latin1 ''X'')\<rparr>,
                  \<lparr>protocolo = Some (latin1 ''1''), status = Some (latin1 ''X'')\<rparr>],
      df_data = [\<lparr>protocolo = None, status = Some (latin1 ''X'')\<rparr>,
                 \<lparr>protocolo = Some (latin1 ''1''), status = Some (latin1 ''Y'')\<rparr>]\<rparr>"]
  by simp

subsection \<open>Claim C5\<close>

text \<open>
  Claim C5. The join key is the identifier after trimming and uppercasing: a carrier row
  and an internal row whose identifiers agree after trimming and uppercasing give a row
  of the merged frame under the normalised identifier, and, when both statuses are
  present, a row of one of the two outcome frames.
\<close>

theorem identifiers_join_after_normalisation:
  assumes "a \<in> set (df_algar s)" and "b \<in> set (df_data s)"
    and "protocolo a = Some i" and "protocolo b = Some i'"
    and "upper (strip i) = upper (strip i')"
  shows "\<lparr>PROTOCOLO = Some (upper (strip i)),
          STATUS_ALGAR = map_option (upper \<circ> strip) (status a),
          STATUS_AG = map_option (upper \<circ> strip) (status b)\<rparr> \<in> set (df_merged s) \<and>
         (status a \<noteq> None \<and> status b \<noteq> None \<longrightarrow>
          \<lparr>PROTOCOLO = Some (upper (strip i)),
            STATUS_ALGAR = map_option (upper \<circ> strip) (status a),
            STATUS_AG = map_option (upper \<circ> strip) (status b)\<rparr>
          \<in> set (df_divergente s) \<union> set (df_igual s))"
proof -
  have "\<lparr>PROTOCOLO = Some (upper (strip i)),
          STATUS_ALGAR = map_option (upper \<circ> strip) (status a),
          STATUS_AG = map_option (upper \<circ> strip) (status b)\<rparr> \<in> set (df_merged s)"
    unfolding in_df_merged using assms by blast
  then show ?thesis
    unfolding in_outcome by simp
qed

text \<open>The identifiers \<open>latin1 '' abc123 ''\<close> and \<open>latin1 ''ABC123''\<close> of the specification.\<close>

theorem identifiers_join_after_normalisation_witness:
  "\<lparr>PROTOCOLO = Some (latin1 ''ABC123''), STATUS_ALGAR = Some (latin1 ''PENDENTE''), STATUS_AG = Some (latin1 ''CANCELADO'')\<rparr>
     \<in> set (df_merged
          \<lparr>df_algar = [\<lparr>protocolo = Some (latin1 '' abc123 ''), status = Some (latin1 ''pendente'')\<rparr>],
           df_data = [\<lparr>protocolo = Some (latin1 ''ABC123''), status = Some (latin1 ''CANCELADO'')\<rparr>]\<rparr>)
       \<inter> (set (df_divergente
          \<lparr>df_algar = [\<lparr>protocolo = Some (latin1 '' abc123 ''), status = Some (latin1 ''pendente'')\<rparr>],
           df_data = [\<lparr>protocolo = Some (latin1 ''ABC123''), status = Some (latin1 ''CANCELADO'')\<rparr>]\<rparr>)
       \<union> set (df_igual
          \<lparr>df_algar = [\<lparr>protocolo = Some (latin1 '' abc123 ''), status = Some (latin1 ''pendente'')\<rparr>],
           df_data = [\<lparr>protocolo = Some (latin1 ''ABC123''), status = Some (latin1 ''CANCELADO'')\<rparr>]\<rparr>))"
proof -
  let ?a = "\<lparr>protocolo = Some (latin1 '' abc123 ''), status = Some (latin1 ''pendente'')\<rparr>"
  let ?b = "\<lparr>protocolo = Some (latin1 ''ABC123''), status = Some (latin1 ''CANCELADO'')\<rparr>"
  let ?s = "\<lparr>df_algar = [?a], df_data = [?b]\<rparr>"
  have u: "upper (strip (latin1 '' abc123 '')) = latin1 ''ABC123''" "upper (strip (latin1 ''ABC123'')) = latin1 ''ABC123''"
    "upper (strip (latin1 ''pendente'')) = latin1 ''PENDENTE''" "upper (strip (latin1 ''CANCELADO'')) = latin1 ''CANCELADO''"
    by code_simp+
  have a: "?a \<in> set (df_algar ?s)" and b: "?b \<in> set (df_data ?s)"
    by simp_all
  have ia: "protocolo ?a = Some (latin1 '' abc123 '')" and ib: "protocolo ?b = Some (latin1 ''ABC123'')"
    by simp_all
  have k: "upper (strip (latin1 '' abc123 '')) = upper (strip (latin1 ''ABC123''))"
    by (simp only: u)
  have st: "status ?a \<noteq> None \<and> status ?b \<noteq> None"
    by simp
  have j: "\<lparr>PROTOCOLO = Some (upper (strip (latin1 '' abc123 ''))),
          STATUS_ALGAR = map_option (upper \<circ> strip) (status ?a),
          STATUS_AG = map_option (upper \<circ> strip) (status ?b)\<rparr> =
     \<lparr>PROTOCOLO = Some (latin1 ''ABC123''), STATUS_ALGAR = Some (latin1 ''PENDENTE''), STATUS_AG = Some (latin1 ''CANCELADO'')\<rparr>"
    by (simp add: u)
  from identifiers_join_after_normalisation [OF a b ia ib k] st show ?thesis
    unfolding j by blast
qed

subsection \<open>Claim C6\<close>

text \<open>
  Claim C6. The join is an inner join: an identifier that, after normalisation, occurs
  in only one of the two frames is the key of no row of the merged frame and of no row
  of the divergent or of the equal frame.
\<close>

theorem unmatched_identifier_dropped:
  assumes "(\<forall>a\<in>set (df_algar s). map_option (upper \<circ> strip) (protocolo a) \<noteq> Some k) \<or>
           (\<forall>b\<in>set (df_data s). map_option (upper \<circ> strip) (protocolo b) \<noteq> Some k)"
  shows "\<forall>j\<in>set (df_merged s) \<union> set (df_divergente s) \<union> set (df_igual s).
           PROTOCOLO j \<noteq> Some k"
proof
  fix j
  assume "j \<in> set (df_merged s) \<union> set (df_divergente s) \<union> set (df_igual s)"
  then have "j \<in> set (df_merged s)"
    using df_divergente_subset df_igual_subset by blast
  then obtain a b i i' where ab: "a \<in> set (df_algar s)" "b \<in> set (df_data s)"
    "protocolo a = Some i" "protocolo b = Some i'" "upper (strip i) = upper (strip i')"
    and j: "PROTOCOLO j = Some (upper (strip i))"
    unfolding in_df_merged by auto
  from ab have "map_option (upper \<circ> strip) (protocolo a) = Some (upper (strip i))"
    and "map_option (upper \<circ> strip) (protocolo b) = Some (upper (strip i))"
    by simp_all
  with assms ab(1,2) have "upper (strip i) \<noteq> k" by auto
  with j show "PROTOCOLO j \<noteq> Some k" by simp
qed

text \<open>In the example, the identifiers 003 and 004 occur on one side only.\<close>

theorem unmatched_identifier_dropped_witness:
  "Some (latin1 ''003'') \<notin> PROTOCOLO `
     (set (df_merged exemplo) \<union> set (df_divergente exemplo) \<union> set (df_igual exemplo)) \<and>
   Some (latin1 ''004'') \<notin> PROTOCOLO `
     (set (df_merged exemplo) \<union> set (df_divergente exemplo) \<union> set (df_igual exemplo))"
proof -
  have u: "upper (strip (latin1 ''001'')) = latin1 ''001''" "upper (strip (latin1 ''002'')) = latin1 ''002''"
    "upper (strip (latin1 ''003'')) = latin1 ''003''" "upper (strip (latin1 ''004'')) = latin1 ''004''"
    by code_simp+
  have "(\<forall>a\<in>set (df_algar exemplo). map_option (upper \<circ> strip) (protocolo a) \<noteq> Some (latin1 ''003'')) \<or>
        (\<forall>b\<in>set (df_data exemplo). map_option (upper \<circ> strip) (protocolo b) \<noteq> Some (latin1 ''003''))"
    by (simp add: exemplo_def u)
  then have 3: "\<forall>j\<in>set (df_merged exemplo) \<union> set (df_divergente exemplo) \<union> set (df_igual exemplo).
      PROTOCOLO j \<noteq> Some (latin1 ''003'')"
    by (rule unmatched_identifier_dropped)
  have "(\<forall>a\<in>set (df_algar exemplo). map_option (upper \<circ> strip) (protocolo a) \<noteq> Some (latin1 ''004'')) \<or>
        (\<forall>b\<in>set (df_data exemplo). map_option (upper \<circ> strip) (protocolo b) \<noteq> Some (latin1 ''004''))"
    by (simp add: exemplo_def u)
  then have 4: "\<forall>j\<in>set (df_merged exemplo) \<union> set (df_divergente exemplo) \<union> set (df_igual exemplo).
      PROTOCOLO j \<noteq> Some (latin1 ''004'')"
    by (rule unmatched_identifier_dropped)
  from 3 4 show ?thesis
    by (intro conjI notin_image)
qed

subsection \<open>Claim C7\<close>

text \<open>
  Claim C7. The comparison is a function of its two input frames, and running it a second
  time on the frames as the first run left them gives the same frames, the same
  divergent rows and the same equal rows, hence the same counts.
\<close>

theorem comparison_idempotent:
  "processar_e_comparar (frames_after s) = processar_e_comparar s"
proof -
  have a: "padronizar (dropna_protocolo (df_algar (frames_after s))) =
      padronizar (dropna_protocolo (df_algar s))"
    and d: "padronizar (dropna_protocolo (df_data (frames_after s))) =
      padronizar (dropna_protocolo (df_data s))"
    by (simp_all add: frames_after_eq limpar_idem)
  have "processar_e_comparar (frames_after s) =
     (let algar = padronizar (dropna_protocolo (df_algar (frames_after s)));
          data = padronizar (dropna_protocolo (df_data (frames_after s)));
          m = dropna_status (merge_inner algar data)
      in (\<lparr>df_algar = algar, df_data = data\<rparr>,
          filter (\<lambda>j. cell_ne (replace_fechado (STATUS_ALGAR j)) (replace_fechado (STATUS_AG j))) m,
          filter (\<lambda>j. \<not> cell_ne (replace_fechado (STATUS_ALGAR j)) (replace_fechado (STATUS_AG j))) m))"
    by (rule processar_via_frames)
  also have "\<dots> =
     (let algar = padronizar (dropna_protocolo (df_algar s));
          data = padronizar (dropna_protocolo (df_data s));
          m = dropna_status (merge_inner algar data)
      in (\<lparr>df_algar = algar, df_data = data\<rparr>,
          filter (\<lambda>j. cell_ne (replace_fechado (STATUS_ALGAR j)) (replace_fechado (STATUS_AG j))) m,
          filter (\<lambda>j. \<not> cell_ne (replace_fechado (STATUS_ALGAR j)) (replace_fechado (STATUS_AG j))) m))"
    by (simp only: a d)
  also have "\<dots> = processar_e_comparar s"
    by (rule processar_via_frames [symmetric])
  finally show ?thesis .
qed

text \<open>The example of the specification, run twice.\<close>

theorem comparison_idempotent_witness:
  "processar_e_comparar (fst (processar_e_comparar exemplo)) = processar_e_comparar exemplo \<and>
   snd (processar_e_comparar exemplo) =
     ([], [\<lparr>PROTOCOLO = Some (latin1 ''001''), STATUS_ALGAR = Some (latin1 ''FECHADO''), STATUS_AG = Some (latin1 ''INSTALADO'')\<rparr>,
           \<lparr>PROTOCOLO = Some (latin1 ''002''), STATUS_ALGAR = Some (latin1 ''PENDENTE''), STATUS_AG = Some (latin1 ''PENDENTE'')\<rparr>])"
proof
  show "processar_e_comparar (fst (processar_e_comparar exemplo)) = processar_e_comparar exemplo"
    by (rule comparison_idempotent)
  show "snd (processar_e_comparar exemplo) =
     ([], [\<lparr>PROTOCOLO = Some (latin1 ''001''), STATUS_ALGAR = Some (latin1 ''FECHADO''), STATUS_AG = Some (latin1 ''INSTALADO'')\<rparr>,
           \<lparr>PROTOCOLO = Some (latin1 ''002''), STATUS_ALGAR = Some (latin1 ''PENDENTE''), STATUS_AG = Some (latin1 ''PENDENTE'')\<rparr>])"
    by code_simp
qed

subsection \<open>Claim C8\<close>

text \<open>
  Claim C8. When reading the CSV file raises, or when reading the Excel file raises after
  the CSV file has been read, loading reports the fixed explanation and the text of the
  exception, and returns no frame at all. In every case the two frames are absent
  together, and they are absent exactly when one of the two readers raises.
\<close>

theorem load_failure:
  "(read_csv arquivo_csv = Inl e \<longrightarrow>
      carregar_dados_upload read_csv read_excel arquivo_csv arquivo_xlsx =
        ([mensagem_erro, ''Detalhe do erro: '' @ e], None, None)) \<and>
   (read_csv arquivo_csv = Inr t \<and> read_excel arquivo_xlsx = Inl e \<longrightarrow>
      carregar_dados_upload read_csv read_excel arquivo_csv arquivo_xlsx =
        ([mensagem_erro, ''Detalhe do erro: '' @ e], None, None)) \<and>
   (fst (snd (carregar_dados_upload read_csv read_excel arquivo_csv arquivo_xlsx)) = None \<longleftrightarrow>
    snd (snd (carregar_dados_upload read_csv read_excel arquivo_csv arquivo_xlsx)) = None) \<and>
   (fst (snd (carregar_dados_upload read_csv read_excel arquivo_csv arquivo_xlsx)) = None \<longleftrightarrow>
    (\<exists>e'. read_csv arquivo_csv = Inl e') \<or> (\<exists>e'. read_excel arquivo_xlsx = Inl e'))"
  by (cases "read_csv arquivo_csv"; cases "read_excel arquivo_xlsx")
     (simp_all add: carregar_dados_upload_def on_exception_def)

text \<open>A CSV reader that raises, and an Excel reader that raises after the CSV file was read.\<close>

theorem load_failure_witness:
  "carregar_dados_upload (\<lambda>f. Inl ''No columns to parse from file'')
      (\<lambda>f. Inr [(Some (latin1 ''INSTALADO''), Some (latin1 ''001''))]) ''algar.csv'' ''data.xlsx'' =
     ([mensagem_erro, ''Detalhe do erro: No columns to parse from file''], None, None) \<and>
   carregar_dados_upload (\<lambda>f. Inr [(Some (latin1 ''001''), Some (latin1 ''FECHADO''))])
      (\<lambda>f. Inl ''Excel file format cannot be determined'') ''algar.csv'' ''data.xlsx'' =
     ([mensagem_erro, ''Detalhe do erro: Excel file format cannot be determined''], None, None)"
proof
  show "carregar_dados_upload (\<lambda>f. Inl ''No columns to parse from file'')
      (\<lambda>f. Inr [(Some (latin1 ''INSTALADO''), Some (latin1 ''001''))]) ''algar.csv'' ''data.xlsx'' =
     ([mensagem_erro, ''Detalhe do erro: No columns to parse from file''], None, None)"
    using load_failure
      [of "\<lambda>f. Inl ''No columns to parse from file''" "''algar.csv''"
          "''No columns to parse from file''" "\<lambda>f. Inr [(Some (latin1 ''INSTALADO''), Some (latin1 ''001''))]"
          "''data.xlsx''"]
    by simp
  show "carregar_dados_upload (\<lambda>f. Inr [(Some (latin1 ''001''), Some (latin1 ''FECHADO''))])
      (\<lambda>f. Inl ''Excel file format cannot be determined'') ''algar.csv'' ''data.xlsx'' =
     ([mensagem_erro, ''Detalhe do erro: Excel file format cannot be determined''], None, None)"
    using load_failure
      [of "\<lambda>f. Inr [(Some (latin1 ''001''), Some (latin1 ''FECHADO''))]" "''algar.csv''"
          "''Excel file format cannot be determined''"
          "\<lambda>f. Inl ''Excel file format cannot be determined''"
          "''data.xlsx''" "[(Some (latin1 ''001''), Some (latin1 ''FECHADO''))]"]
    by simp
qed

subsection \<open>Claim C9\<close>

text \<open>
  Claim C9. The comparison changes the frames of its caller: after the call each frame
  holds the rows whose identifier was present, with the identifier and the status
  trimmed and uppercased. The frames are what they were before the call only when no
  identifier was missing and all text was trimmed and uppercased already.
\<close>

theorem inputs_mutated_in_place:
  "df_algar (frames_after s) =
     map (\<lambda>r. \<lparr>protocolo = map_option (upper \<circ> strip) (protocolo r),
               status = map_option (upper \<circ> strip) (status r)\<rparr>)
         (filter (\<lambda>r. protocolo r \<noteq> None) (df_algar s)) \<and>
   df_data (frames_after s) =
     map (\<lambda>r. \<lparr>protocolo = map_option (upper \<circ> strip) (protocolo r),
               status = map_option (upper \<circ> strip) (status r)\<rparr>)
         (filter (\<lambda>r. protocolo r \<noteq> None) (df_data s)) \<and>
   (frames_after s = s \<longleftrightarrow>
      (\<forall>r\<in>set (df_algar s) \<union> set (df_data s). protocolo r \<noteq> None \<and>
         map_option (upper \<circ> strip) (protocolo r) = protocolo r \<and>
         map_option (upper \<circ> strip) (status r) = status r))"
proof (intro conjI)
  show "df_algar (frames_after s) =
     map (\<lambda>r. \<lparr>protocolo = map_option (upper \<circ> strip) (protocolo r),
               status = map_option (upper \<circ> strip) (status r)\<rparr>)
         (filter (\<lambda>r. protocolo r \<noteq> None) (df_algar s))"
    unfolding frames_after_eq frames.simps by (rule limpar)
  show "df_data (frames_after s) =
     map (\<lambda>r. \<lparr>protocolo = map_option (upper \<circ> strip) (protocolo r),
               status = map_option (upper \<circ> strip) (status r)\<rparr>)
         (filter (\<lambda>r. protocolo r \<noteq> None) (df_data s))"
    unfolding frames_after_eq frames.simps by (rule limpar)
  have "frames_after s = s \<longleftrightarrow>
      padronizar (dropna_protocolo (df_algar s)) = df_algar s \<and>
      padronizar (dropna_protocolo (df_data s)) = df_data s"
    unfolding frames_after_eq by (cases s) simp
  then show "frames_after s = s \<longleftrightarrow>
      (\<forall>r\<in>set (df_algar s) \<union> set (df_data s). protocolo r \<noteq> None \<and>
         map_option (upper \<circ> strip) (protocolo r) = protocolo r \<and>
         map_option (upper \<circ> strip) (status r) = status r)"
    unfolding limpar_fixed by blast
qed

text \<open>
  A carrier frame with a row without identifier and a row with padded lower-case text;
  and a frame whose only text that changes is a status of y with diaeresis and the
  micro sign, which \<^verbatim>\<open>str.upper()\<close> overwrites with U+0178 and U+039C.
\<close>

theorem inputs_mutated_in_place_witness:
  "frames_after \<lparr>df_algar = [\<lparr>protocolo = None, status = Some (latin1 ''ok'')\<rparr>,
                             \<lparr>protocolo = Some (latin1 '' a1 ''), status = Some (latin1 '' ok'')\<rparr>],
                 df_data = [\<lparr>protocolo = Some (latin1 ''A1''), status = Some (latin1 ''OK'')\<rparr>]\<rparr> \<noteq>
     \<lparr>df_algar = [\<lparr>protocolo = None, status = Some (latin1 ''ok'')\<rparr>,
                  \<lparr>protocolo = Some (latin1 '' a1 ''), status = Some (latin1 '' ok'')\<rparr>],
      df_data = [\<lparr>protocolo = Some (latin1 ''A1''), status = Some (latin1 ''OK'')\<rparr>]\<rparr> \<and>
   df_algar (frames_after \<lparr>df_algar = [\<lparr>protocolo = None, status = Some (latin1 ''ok'')\<rparr>,
                             \<lparr>protocolo = Some (latin1 '' a1 ''), status = Some (latin1 '' ok'')\<rparr>],
                 df_data = [\<lparr>protocolo = Some (latin1 ''A1''), status = Some (latin1 ''OK'')\<rparr>]\<rparr>) =
     [\<lparr>protocolo = Some (latin1 ''A1''), status = Some (latin1 ''OK'')\<rparr>] \<and>
   frames_after \<lparr>df_algar = [\<lparr>protocolo = Some (latin1 ''A1''),
                               status = Some [Latin1 (CHR 0xFF), Latin1 (CHR 0xB5)]\<rparr>],
                 df_data = []\<rparr> \<noteq>
     \<lparr>df_algar = [\<lparr>protocolo = Some (latin1 ''A1''),
                    status = Some [Latin1 (CHR 0xFF), Latin1 (CHR 0xB5)]\<rparr>],
      df_data = []\<rparr> \<and>
   df_algar (frames_after \<lparr>df_algar = [\<lparr>protocolo = Some (latin1 ''A1''),
                                         status = Some [Latin1 (CHR 0xFF), Latin1 (CHR 0xB5)]\<rparr>],
                           df_data = []\<rparr>) =
     [\<lparr>protocolo = Some (latin1 ''A1''), status = Some [U0178, U039C]\<rparr>]"
proof -
  let ?s = "\<lparr>df_algar = [\<lparr>protocolo = None, status = Some (latin1 ''ok'')\<rparr>,
                             \<lparr>protocolo = Some (latin1 '' a1 ''), status = Some (latin1 '' ok'')\<rparr>],
                 df_data = [\<lparr>protocolo = Some (latin1 ''A1''), status = Some (latin1 ''OK'')\<rparr>]\<rparr>"
  let ?s' = "\<lparr>df_algar = [\<lparr>protocolo = Some (latin1 ''A1''),
                               status = Some [Latin1 (CHR 0xFF), Latin1 (CHR 0xB5)]\<rparr>],
              df_data = []\<rparr>"
  have u: "upper (strip (latin1 '' a1 '')) = latin1 ''A1''" "upper (strip (latin1 '' ok'')) = latin1 ''OK''"
    "upper (strip (latin1 ''A1'')) = latin1 ''A1''"
    "upper (strip [Latin1 (CHR 0xFF), Latin1 (CHR 0xB5)]) = [U0178, U039C]"
    by code_simp+
  note t = inputs_mutated_in_place [of ?s]
  note t' = inputs_mutated_in_place [of ?s']
  from t have 1: "frames_after ?s \<noteq> ?s"
    by simp
  from t have 2: "df_algar (frames_after ?s) = [\<lparr>protocolo = Some (latin1 ''A1''), status = Some (latin1 ''OK'')\<rparr>]"
    by (simp add: u)
  from t' have 3: "frames_after ?s' \<noteq> ?s'"
    by (simp add: u)
  from t' have 4: "df_algar (frames_after ?s') =
      [\<lparr>protocolo = Some (latin1 ''A1''), status = Some [U0178, U039C]\<rparr>]"
    by (simp add: u)
  from 1 2 3 4 show ?thesis by (intro conjI)
qed

subsection \<open>Claim C10\<close>

text \<open>
  Claim C10. For every key, the merged frame has one row for each pair of a carrier row
  and an internal row whose identifiers normalise to this key: their number is the
  product of the two numbers of occurrences. Each of these rows with both statuses
  present is in exactly one outcome frame, so that the two outcome frames together have,
  under this key, the product of the numbers of carrier rows and of internal rows with
  this key and a present status.
\<close>

theorem join_multiplies_duplicates:
  "length (filter (\<lambda>j. PROTOCOLO j = Some k) (df_merged s)) =
     length (filter (\<lambda>r. map_option (upper \<circ> strip) (protocolo r) = Some k) (df_algar s)) *
     length (filter (\<lambda>r. map_option (upper \<circ> strip) (protocolo r) = Some k) (df_data s)) \<and>
   length (filter (\<lambda>j. PROTOCOLO j = Some k) (df_divergente s)) +
   length (filter (\<lambda>j. PROTOCOLO j = Some k) (df_igual s)) =
     length (filter (\<lambda>r. map_option (upper \<circ> strip) (protocolo r) = Some k \<and> status r \<noteq> None)
               (df_algar s)) *
     length (filter (\<lambda>r. map_option (upper \<circ> strip) (protocolo r) = Some k \<and> status r \<noteq> None)
               (df_data s))"
proof
  have "length (filter (\<lambda>j. PROTOCOLO j = Some k \<and> True \<and> True) (df_merged s)) =
     length (filter (\<lambda>r. map_option (upper \<circ> strip) (protocolo r) = Some k \<and> True) (df_algar s)) *
     length (filter (\<lambda>r. map_option (upper \<circ> strip) (protocolo r) = Some k \<and> True) (df_data s))"
    unfolding frames_after_eq frames.simps
    by (simp only: length_filter_merge_inner [where P = "\<lambda>_. True" and Q = "\<lambda>_. True"]
        length_filter_limpar [where P = "\<lambda>_. True"])
  then show "length (filter (\<lambda>j. PROTOCOLO j = Some k) (df_merged s)) =
     length (filter (\<lambda>r. map_option (upper \<circ> strip) (protocolo r) = Some k) (df_algar s)) *
     length (filter (\<lambda>r. map_option (upper \<circ> strip) (protocolo r) = Some k) (df_data s))"
    by simp
next
  have "length (filter (\<lambda>j. PROTOCOLO j = Some k) (df_divergente s)) +
        length (filter (\<lambda>j. PROTOCOLO j = Some k) (df_igual s)) =
        length (filter (\<lambda>j. PROTOCOLO j = Some k) (dropna_status (df_merged s)))"
    unfolding df_divergente_eq df_igual_eq by (rule length_filter_split)
  also have "\<dots> = length (filter (\<lambda>j. PROTOCOLO j = Some k \<and> STATUS_ALGAR j \<noteq> None \<and> STATUS_AG j \<noteq> None)
      (df_merged s))"
    unfolding dropna_status_def by (simp add: conj_commute conj_left_commute del: not_None_eq)
  also have "\<dots> =
     length (filter (\<lambda>r. map_option (upper \<circ> strip) (protocolo r) = Some k \<and>
                          map_option (upper \<circ> strip) (status r) \<noteq> None) (df_algar s)) *
     length (filter (\<lambda>r. map_option (upper \<circ> strip) (protocolo r) = Some k \<and>
                          map_option (upper \<circ> strip) (status r) \<noteq> None) (df_data s))"
    unfolding frames_after_eq frames.simps
    by (simp only: length_filter_merge_inner [where P = "\<lambda>c. c \<noteq> None" and Q = "\<lambda>c. c \<noteq> None"]
        length_filter_limpar [where P = "\<lambda>c. c \<noteq> None"])
  also have "\<dots> =
     length (filter (\<lambda>r. map_option (upper \<circ> strip) (protocolo r) = Some k \<and> status r \<noteq> None)
               (df_algar s)) *
     length (filter (\<lambda>r. map_option (upper \<circ> strip) (protocolo r) = Some k \<and> status r \<noteq> None)
               (df_data s))"
    by (simp del: not_None_eq)
  finally show "length (filter (\<lambda>j. PROTOCOLO j = Some k) (df_divergente s)) +
   length (filter (\<lambda>j. PROTOCOLO j = Some k) (df_igual s)) =
     length (filter (\<lambda>r. map_option (upper \<circ> strip) (protocolo r) = Some k \<and> status r \<noteq> None)
               (df_algar s)) *
     length (filter (\<lambda>r. map_option (upper \<circ> strip) (protocolo r) = Some k \<and> status r \<noteq> None)
               (df_data s))" .
qed

text \<open>
  Two carrier rows and two internal rows under one key give four outcome rows, more than
  either input has rows.
\<close>

theorem join_multiplies_duplicates_witness:
  "length (filter (\<lambda>j. PROTOCOLO j = Some (latin1 ''7''))
      (df_divergente \<lparr>df_algar = [\<lparr>protocolo = Some (latin1 ''7''), status = Some (latin1 ''A'')\<rparr>,
                                  \<lparr>protocolo = Some (latin1 '' 7''), status = Some (latin1 ''B'')\<rparr>],
                      df_data = [\<lparr>protocolo = Some (latin1 ''7''), status = Some (latin1 ''A'')\<rparr>,
                                 \<lparr>protocolo = Some (latin1 ''7 ''), status = Some (latin1 ''C'')\<rparr>]\<rparr>)) +
   length (filter (\<lambda>j. PROTOCOLO j = Some (latin1 ''7''))
      (df_igual \<lparr>df_algar = [\<lparr>protocolo = Some (latin1 ''7''), status = Some (latin1 ''A'')\<rparr>,
                             \<lparr>protocolo = Some (latin1 '' 7''), status = Some (latin1 ''B'')\<rparr>],
                 df_data = [\<lparr>protocolo = Some (latin1 ''7''), status = Some (latin1 ''A'')\<rparr>,
                            \<lparr>protocolo = Some (latin1 ''7 ''), status = Some (latin1 ''C'')\<rparr>]\<rparr>)) = 2 * 2 \<and>
   length (df_divergente \<lparr>df_algar = [\<lparr>protocolo = Some (latin1 ''7''), status = Some (latin1 ''A'')\<rparr>,
                                  \<lparr>protocolo = Some (latin1 '' 7''), status = Some (latin1 ''B'')\<rparr>],
                      df_data = [\<lparr>protocolo = Some (latin1 ''7''), status = Some (latin1 ''A'')\<rparr>,
                                 \<lparr>protocolo = Some (latin1 ''7 ''), status = Some (latin1 ''C'')\<rparr>]\<rparr>) = 3 \<and>
   length (df_igual \<lparr>df_algar = [\<lparr>protocolo = Some (latin1 ''7''), status = Some (latin1 ''A'')\<rparr>,
                             \<lparr>protocolo = Some (latin1 '' 7''), status = Some (latin1 ''B'')\<rparr>],
                 df_data = [\<lparr>protocolo = Some (latin1 ''7''), status = Some (latin1 ''A'')\<rparr>,
                            \<lparr>protocolo = Some (latin1 ''7 ''), status = Some (latin1 ''C'')\<rparr>]\<rparr>) = 1"
proof -
  let ?s = "\<lparr>df_algar = [\<lparr>protocolo = Some (latin1 ''7''), status = Some (latin1 ''A'')\<rparr>,
                         \<lparr>protocolo = Some (latin1 '' 7''), status = Some (latin1 ''B'')\<rparr>],
             df_data = [\<lparr>protocolo = Some (latin1 ''7''), status = Some (latin1 ''A'')\<rparr>,
                        \<lparr>protocolo = Some (latin1 ''7 ''), status = Some (latin1 ''C'')\<rparr>]\<rparr>"
  have a: "length (filter (\<lambda>r. map_option (upper \<circ> strip) (protocolo r) = Some (latin1 ''7'') \<and> status r \<noteq> None)
               (df_algar ?s)) = 2"
    by code_simp
  have d: "length (filter (\<lambda>r. map_option (upper \<circ> strip) (protocolo r) = Some (latin1 ''7'') \<and> status r \<noteq> None)
               (df_data ?s)) = 2"
    by code_simp
  from join_multiplies_duplicates [of "latin1 ''7''" ?s]
  have "length (filter (\<lambda>j. PROTOCOLO j = Some (latin1 ''7'')) (df_divergente ?s)) +
        length (filter (\<lambda>j. PROTOCOLO j = Some (latin1 ''7'')) (df_igual ?s)) = 2 * 2"
    unfolding a d by (rule conjunct2)
  moreover have "length (df_divergente ?s) = 3"
    by code_simp
  moreover have "length (df_igual ?s) = 1"
    by code_simp
  ultimately show ?thesis by (intro conjI)
qed


end
